theory Spec2Isabelle
  imports Complex_Main
begin

section \<open>Numbers, errors and dense arrays\<close>

text \<open>
  The grid engine of \<^verbatim>\<open>fdtd/grid.py\<close> and the line source of \<^verbatim>\<open>fdtd/sources.py\<close>.
  Python floats are modelled as the real numbers they denote: rounding error, infinities
  and NaN are outside this development, and every place where the Python raises
  \<^verbatim>\<open>ZeroDivisionError\<close> is an explicit branch.  Where numpy would store an infinity
  or a NaN instead of raising (an array divided by \<^verbatim>\<open>0.0\<close>), the theorems that depend
  on the stored value carry the side condition that excludes it.
\<close>

datatype error = ValueError | ZeroDivisionError | TypeError | IndexError | KeyError

text \<open>\<^verbatim>\<open>Number\<close>: a Python \<^verbatim>\<open>int\<close> or a Python \<^verbatim>\<open>float\<close>.\<close>

datatype number = PyInt int | PyFloat real

text \<open>\<^verbatim>\<open>float(v)\<close>.\<close>

fun to_float :: "number \<Rightarrow> real" where
  "to_float (PyInt n) = of_int n"
| "to_float (PyFloat r) = r"

text \<open>\<^verbatim>\<open>int(r)\<close> of a float: truncation towards zero.\<close>

definition py_int :: "real \<Rightarrow> int" where
  "py_int r = (if 0 \<le> r then \<lfloor>r\<rfloor> else \<lceil>r\<rceil>)"

text \<open>Sequencing of computations that may raise.\<close>

definition bind :: "error + 'a \<Rightarrow> ('a \<Rightarrow> error + 'b) \<Rightarrow> error + 'b" where
  "bind m f = (case m of Inl e \<Rightarrow> Inl e | Inr x \<Rightarrow> f x)"

text \<open>A \<^verbatim>\<open>for\<close> loop over a list whose body may raise and threads a state.\<close>

fun for_each :: "('a \<Rightarrow> 's \<Rightarrow> error + 's) \<Rightarrow> 'a list \<Rightarrow> 's \<Rightarrow> error + 's" where
  "for_each f [] s = Inr s"
| "for_each f (x # xs) s = bind (f x s) (for_each f xs)"

text \<open>
  A dense array of shape \<^verbatim>\<open>(Nx, Ny, Nz, 3)\<close>: the lengths of the three spatial axes and
  the entry at every index.  Entries outside the shape are never read by the code.
\<close>

record tensor =
  shape :: "nat \<times> nat \<times> nat"
  elem :: "nat \<Rightarrow> nat \<Rightarrow> nat \<Rightarrow> nat \<Rightarrow> real"

definition zeros :: "nat \<times> nat \<times> nat \<Rightarrow> tensor" where
  "zeros sh = \<lparr>shape = sh, elem = (\<lambda>i j k c. 0)\<rparr>"

definition ones :: "nat \<times> nat \<times> nat \<Rightarrow> tensor" where
  "ones sh = \<lparr>shape = sh, elem = (\<lambda>i j k c. 1)\<rparr>"

text \<open>
  Elementwise arithmetic.  All arrays of one grid are allocated with the grid's shape, so
  no broadcasting between different shapes arises; the result takes the left shape.
\<close>

definition tadd :: "tensor \<Rightarrow> tensor \<Rightarrow> tensor" where
  "tadd A B = \<lparr>shape = shape A, elem = (\<lambda>i j k c. elem A i j k c + elem B i j k c)\<rparr>"

definition tsub :: "tensor \<Rightarrow> tensor \<Rightarrow> tensor" where
  "tsub A B = \<lparr>shape = shape A, elem = (\<lambda>i j k c. elem A i j k c - elem B i j k c)\<rparr>"

definition tmul :: "tensor \<Rightarrow> tensor \<Rightarrow> tensor" where
  "tmul A B = \<lparr>shape = shape A, elem = (\<lambda>i j k c. elem A i j k c * elem B i j k c)\<rparr>"

definition smul :: "real \<Rightarrow> tensor \<Rightarrow> tensor" where
  "smul a B = \<lparr>shape = shape B, elem = (\<lambda>i j k c. a * elem B i j k c)\<rparr>"

definition sdiv :: "tensor \<Rightarrow> real \<Rightarrow> tensor" where
  "sdiv A b = \<lparr>shape = shape A, elem = (\<lambda>i j k c. elem A i j k c / b)\<rparr>"

subsection \<open>Basic slices\<close>

text \<open>
  A slice \<^verbatim>\<open>start:stop\<close> of an axis of length \<open>n\<close>, either bound optional.  A negative
  bound counts from the end and every bound is clipped to \<open>0..n\<close>, as Python does.
\<close>

type_synonym pyslice = "int option \<times> int option"

definition clip_bound :: "nat \<Rightarrow> int \<Rightarrow> nat" where
  "clip_bound n b = nat (min (int n) (max 0 (if b < 0 then b + int n else b)))"

definition slice_start :: "nat \<Rightarrow> pyslice \<Rightarrow> nat" where
  "slice_start n s = (case fst s of None \<Rightarrow> 0 | Some a \<Rightarrow> clip_bound n a)"

definition slice_stop :: "nat \<Rightarrow> pyslice \<Rightarrow> nat" where
  "slice_stop n s = (case snd s of None \<Rightarrow> n | Some b \<Rightarrow> clip_bound n b)"

definition in_slice :: "nat \<Rightarrow> pyslice \<Rightarrow> nat \<Rightarrow> bool" where
  "in_slice n s i \<longleftrightarrow> slice_start n s \<le> i \<and> i < slice_stop n s"

text \<open>The three slices the curl operators use: \<^verbatim>\<open>:\<close>, \<^verbatim>\<open>:-1\<close> and \<^verbatim>\<open>1:\<close>.\<close>

definition whole :: pyslice where
  "whole = (None, None)"

definition but_last :: pyslice where
  "but_last = (None, Some (- 1))"

definition from_one :: pyslice where
  "from_one = (Some 1, None)"

text \<open>
  \<^verbatim>\<open>A[sx, sy, sz, c]\<close>: a three-dimensional view of one component, indexed from the
  start of each slice.
\<close>

type_synonym view = "pyslice \<times> pyslice \<times> pyslice \<times> nat"

text \<open>The lengths of the three spatial axes of an array.\<close>

definition dim_x :: "tensor \<Rightarrow> nat" where
  "dim_x A = fst (shape A)"

definition dim_y :: "tensor \<Rightarrow> nat" where
  "dim_y A = fst (snd (shape A))"

definition dim_z :: "tensor \<Rightarrow> nat" where
  "dim_z A = snd (snd (shape A))"

fun get_view :: "tensor \<Rightarrow> view \<Rightarrow> nat \<Rightarrow> nat \<Rightarrow> nat \<Rightarrow> real" where
  "get_view A (sx, sy, sz, c) =
     (\<lambda>a b d. elem A (slice_start (dim_x A) sx + a) (slice_start (dim_y A) sy + b)
                 (slice_start (dim_z A) sz + d) c)"

text \<open>The extent of a view along the three axes.\<close>

fun view_extent :: "tensor \<Rightarrow> view \<Rightarrow> nat \<times> nat \<times> nat" where
  "view_extent A (sx, sy, sz, c) =
     (slice_stop (dim_x A) sx - slice_start (dim_x A) sx,
      slice_stop (dim_y A) sy - slice_start (dim_y A) sy,
      slice_stop (dim_z A) sz - slice_start (dim_z A) sz)"

definition vsub :: "(nat \<Rightarrow> nat \<Rightarrow> nat \<Rightarrow> real) \<Rightarrow> (nat \<Rightarrow> nat \<Rightarrow> nat \<Rightarrow> real) \<Rightarrow> nat \<Rightarrow> nat \<Rightarrow> nat \<Rightarrow> real" where
  "vsub f g = (\<lambda>a b d. f a b d - g a b d)"

text \<open>Whether an index lies in the view \<^verbatim>\<open>A[sx, sy, sz, c]\<close>.\<close>

fun in_view :: "tensor \<Rightarrow> view \<Rightarrow> nat \<Rightarrow> nat \<Rightarrow> nat \<Rightarrow> nat \<Rightarrow> bool" where
  "in_view A (sx, sy, sz, c) i j k c' \<longleftrightarrow>
     c' = c \<and> in_slice (dim_x A) sx i \<and> in_slice (dim_y A) sy j \<and> in_slice (dim_z A) sz k"

text \<open>\<^verbatim>\<open>A[sx, sy, sz, c] += f\<close> and \<^verbatim>\<open>A[sx, sy, sz, c] -= f\<close>, in place.\<close>

fun iadd_view :: "tensor \<Rightarrow> view \<Rightarrow> (nat \<Rightarrow> nat \<Rightarrow> nat \<Rightarrow> real) \<Rightarrow> tensor" where
  "iadd_view A (sx, sy, sz, c) f =
     A\<lparr>elem := (\<lambda>i j k c'.
          if in_view A (sx, sy, sz, c) i j k c'
          then elem A i j k c' + f (i - slice_start (dim_x A) sx) (j - slice_start (dim_y A) sy)
                                   (k - slice_start (dim_z A) sz)
          else elem A i j k c')\<rparr>"

fun isub_view :: "tensor \<Rightarrow> view \<Rightarrow> (nat \<Rightarrow> nat \<Rightarrow> nat \<Rightarrow> real) \<Rightarrow> tensor" where
  "isub_view A (sx, sy, sz, c) f =
     A\<lparr>elem := (\<lambda>i j k c'.
          if in_view A (sx, sy, sz, c) i j k c'
          then elem A i j k c' - f (i - slice_start (dim_x A) sx) (j - slice_start (dim_y A) sy)
                                   (k - slice_start (dim_z A) sz)
          else elem A i j k c')\<rparr>"

section \<open>Curl operators\<close>

text \<open>\<^verbatim>\<open>curl_E\<close>: six slice updates on a fresh zero array, in the order of the source.\<close>

definition curl_E :: "tensor \<Rightarrow> tensor" where
  "curl_E E =
     (let c0 = zeros (shape E);
          c1 = iadd_view c0 (whole, but_last, whole, 0)
                 (vsub (get_view E (whole, from_one, whole, 2)) (get_view E (whole, but_last, whole, 2)));
          c2 = isub_view c1 (whole, whole, but_last, 0)
                 (vsub (get_view E (whole, whole, from_one, 1)) (get_view E (whole, whole, but_last, 1)));
          c3 = iadd_view c2 (whole, whole, but_last, 1)
                 (vsub (get_view E (whole, whole, from_one, 0)) (get_view E (whole, whole, but_last, 0)));
          c4 = isub_view c3 (but_last, whole, whole, 1)
                 (vsub (get_view E (from_one, whole, whole, 2)) (get_view E (but_last, whole, whole, 2)));
          c5 = iadd_view c4 (but_last, whole, whole, 2)
                 (vsub (get_view E (from_one, whole, whole, 1)) (get_view E (but_last, whole, whole, 1)));
          c6 = isub_view c5 (whole, but_last, whole, 2)
                 (vsub (get_view E (whole, from_one, whole, 0)) (get_view E (whole, but_last, whole, 0)))
      in c6)"

text \<open>\<^verbatim>\<open>curl_H\<close>: the same six updates, written into \<^verbatim>\<open>1:\<close> instead of \<^verbatim>\<open>:-1\<close>.\<close>

definition curl_H :: "tensor \<Rightarrow> tensor" where
  "curl_H H =
     (let c0 = zeros (shape H);
          c1 = iadd_view c0 (whole, from_one, whole, 0)
                 (vsub (get_view H (whole, from_one, whole, 2)) (get_view H (whole, but_last, whole, 2)));
          c2 = isub_view c1 (whole, whole, from_one, 0)
                 (vsub (get_view H (whole, whole, from_one, 1)) (get_view H (whole, whole, but_last, 1)));
          c3 = iadd_view c2 (whole, whole, from_one, 1)
                 (vsub (get_view H (whole, whole, from_one, 0)) (get_view H (whole, whole, but_last, 0)));
          c4 = isub_view c3 (from_one, whole, whole, 1)
                 (vsub (get_view H (from_one, whole, whole, 2)) (get_view H (but_last, whole, whole, 2)));
          c5 = iadd_view c4 (from_one, whole, whole, 2)
                 (vsub (get_view H (from_one, whole, whole, 1)) (get_view H (but_last, whole, whole, 1)));
          c6 = isub_view c5 (whole, from_one, whole, 2)
                 (vsub (get_view H (whole, from_one, whole, 0)) (get_view H (whole, but_last, whole, 0)))
      in c6)"

section \<open>The line source\<close>

text \<open>
  \<^verbatim>\<open>LineSource\<close>.  The fields \<open>src_x\<close>, \<open>src_y\<close>, \<open>src_z\<close>, \<open>src_vect\<close> and
  \<open>src_profile\<close> do not exist before registration; \<open>LineSource_init\<close> leaves them empty
  and registration is the only place that puts a source into a grid.  The back-reference
  \<^verbatim>\<open>self.grid\<close> is the grid whose source list holds the record.
\<close>

record line_source =
  src_period :: number
  src_power :: real
  src_phase_shift :: real
  src_name :: "string option"
  src_x :: "int list"
  src_y :: "int list"
  src_z :: "int list"
  src_vect :: "real list"
  src_profile :: "real list"


section \<open>The grid\<close>

text \<open>
  \<^verbatim>\<open>Grid\<close>.  The classes of boundaries, detectors and objects are not part of the two
  modules; their instances are values of the type parameter \<open>'c\<close>.  \<open>names\<close> holds the
  attributes attached by \<^verbatim>\<open>setattr(grid, name, source)\<close>, each as the position of the
  source in \<open>sources\<close>.
\<close>

record 'c grid =
  grid_spacing :: real
  Nx :: int
  Ny :: int
  Nz :: int
  D :: int
  courant_number :: real
  timestep :: real
  E :: tensor
  H :: tensor
  inverse_permittivity :: tensor
  inverse_permeability :: tensor
  timesteps_passed :: int
  sources :: "line_source list"
  boundaries :: "'c list"
  detectors :: "'c list"
  objects :: "'c list"
  names :: "string \<rightharpoonup> nat"

text \<open>
  The methods of the absent collaborator classes that the grid calls, taken as
  parameters.  Each may change the grid and may raise.
\<close>

record 'c hooks =
  boundary_update_phi_E :: "'c \<Rightarrow> 'c grid \<Rightarrow> error + 'c grid"
  boundary_update_phi_H :: "'c \<Rightarrow> 'c grid \<Rightarrow> error + 'c grid"
  boundary_update_E :: "'c \<Rightarrow> 'c grid \<Rightarrow> error + 'c grid"
  boundary_update_H :: "'c \<Rightarrow> 'c grid \<Rightarrow> error + 'c grid"
  object_update_E :: "'c \<Rightarrow> tensor \<Rightarrow> 'c grid \<Rightarrow> error + 'c grid"
  object_update_H :: "'c \<Rightarrow> tensor \<Rightarrow> 'c grid \<Rightarrow> error + 'c grid"
  detect_E :: "'c \<Rightarrow> 'c grid \<Rightarrow> error + 'c grid"
  detect_H :: "'c \<Rightarrow> 'c grid \<Rightarrow> error + 'c grid"
  boundary_register_grid :: "'c \<Rightarrow> 'c grid \<Rightarrow> error + 'c \<times> 'c grid"
  detector_register_grid :: "'c \<Rightarrow> 'c grid \<Rightarrow> error + 'c \<times> 'c grid"
  object_register_grid :: "'c \<Rightarrow> 'c grid \<Rightarrow> error + 'c \<times> 'c grid"

definition SPEED_LIGHT :: real where
  "SPEED_LIGHT = 299792458"

subsection \<open>Distances, times and shapes\<close>

text \<open>
  \<^verbatim>\<open>Grid._handle_distance\<close> and \<^verbatim>\<open>Grid._handle_time\<close> read one attribute of the grid,
  the grid spacing and the timestep; it is the first argument here.  The constructor
  calls the former before the grid is complete.
\<close>

definition handle_distance :: "real \<Rightarrow> number \<Rightarrow> error + int" where
  "handle_distance spacing distance =
     (case distance of
        PyInt n \<Rightarrow> Inr n
      | PyFloat r \<Rightarrow>
          if spacing = 0 then Inl ZeroDivisionError else Inr (py_int (r / spacing + 1 / 2)))"

definition handle_time :: "real \<Rightarrow> number \<Rightarrow> error + int" where
  "handle_time step_length t =
     (case t of
        PyInt n \<Rightarrow> Inr n
      | PyFloat r \<Rightarrow>
          if step_length = 0 then Inl ZeroDivisionError
          else Inr (py_int (r / step_length + 1 / 2)))"

definition handle_tuple :: "real \<Rightarrow> number list \<Rightarrow> error + int \<times> int \<times> int" where
  "handle_tuple spacing shp =
     (case shp of
        [x, y, z] \<Rightarrow>
          bind (handle_distance spacing x) (\<lambda>x'.
          bind (handle_distance spacing y) (\<lambda>y'.
          bind (handle_distance spacing z) (\<lambda>z'. Inr (x', y', z'))))
      | _ \<Rightarrow> Inl ValueError)"

subsection \<open>Construction\<close>

text \<open>\<^verbatim>\<open>int(n > 1)\<close>.\<close>

definition int_of_bool :: "bool \<Rightarrow> int" where
  "int_of_bool b = (if b then 1 else 0)"

text \<open>
  \<^verbatim>\<open>float(D) ** (-0.5) * 0.99\<close>: Python raises \<^verbatim>\<open>ZeroDivisionError\<close> for a zero base
  under a negative exponent.
\<close>

definition default_courant_number :: "int \<Rightarrow> error + real" where
  "default_courant_number d =
     (if d = 0 then Inl ZeroDivisionError else Inr (of_int d powr (- (1 / 2)) * (99 / 100)))"

text \<open>
  \<^verbatim>\<open>Grid.__init__\<close>.  \<^verbatim>\<open>bd.zeros\<close> and \<^verbatim>\<open>bd.ones\<close> raise \<^verbatim>\<open>ValueError\<close> on a negative
  dimension; that is the only check of the sizes.  The division of the array of ones by
  \<^verbatim>\<open>float(permittivity)\<close> does not raise.
\<close>

definition Grid_init ::
  "number list \<Rightarrow> number \<Rightarrow> number \<Rightarrow> number \<Rightarrow> number option \<Rightarrow> error + 'c grid" where
  "Grid_init shp spacing permittivity permeability cn =
     (let gs = to_float spacing in
      bind (handle_tuple gs shp) (\<lambda>(nx, ny, nz).
        let d = int_of_bool (nx > 1) + int_of_bool (ny > 1) + int_of_bool (nz > 1) in
        bind (case cn of None \<Rightarrow> default_courant_number d | Some c \<Rightarrow> Inr (to_float c)) (\<lambda>c.
          let ts = c * gs / SPEED_LIGHT in
          if nx < 0 \<or> ny < 0 \<or> nz < 0 then Inl ValueError
          else
            let sh = (nat nx, nat ny, nat nz) in
            Inr \<lparr>grid_spacing = gs, Nx = nx, Ny = ny, Nz = nz, D = d,
                 courant_number = c, timestep = ts,
                 E = zeros sh, H = zeros sh,
                 inverse_permittivity = sdiv (ones sh) (to_float permittivity),
                 inverse_permeability = sdiv (ones sh) (to_float permeability),
                 timesteps_passed = 0,
                 sources = [], boundaries = [], detectors = [], objects = [],
                 names = Map.empty\<rparr>)))"

subsection \<open>Source injection\<close>

text \<open>
  An index into an axis of length \<open>n\<close>: a negative index counts from the end, an index
  outside \<open>-n..n-1\<close> raises \<^verbatim>\<open>IndexError\<close>.
\<close>

definition axis_index :: "nat \<Rightarrow> int \<Rightarrow> error + nat" where
  "axis_index n i =
     (if - int n \<le> i \<and> i < int n then Inr (nat (if i < 0 then i + int n else i))
      else Inl IndexError)"

text \<open>\<^verbatim>\<open>A[x, y, z, c]\<close> read, and \<^verbatim>\<open>A[x, y, z, c] += v\<close>.\<close>

definition cell_index :: "tensor \<Rightarrow> int \<Rightarrow> int \<Rightarrow> int \<Rightarrow> error + nat \<times> nat \<times> nat" where
  "cell_index A x y z =
     bind (axis_index (dim_x A) x) (\<lambda>i.
     bind (axis_index (dim_y A) y) (\<lambda>j.
     bind (axis_index (dim_z A) z) (\<lambda>k. Inr (i, j, k))))"

definition getitem :: "tensor \<Rightarrow> nat \<Rightarrow> int \<times> int \<times> int \<Rightarrow> error + real" where
  "getitem A c p =
     (case p of (x, y, z) \<Rightarrow>
        bind (cell_index A x y z) (\<lambda>(i, j, k). Inr (elem A i j k c)))"

definition iadd_item :: "nat \<Rightarrow> int \<times> int \<times> int \<times> real \<Rightarrow> tensor \<Rightarrow> error + tensor" where
  "iadd_item c p A =
     (case p of (x, y, z, v) \<Rightarrow>
        bind (cell_index A x y z) (\<lambda>(i, j, k).
          Inr (A\<lparr>elem := (\<lambda>i' j' k' c'.
                 if i' = i \<and> j' = j \<and> k' = k \<and> c' = c then elem A i j k c + v
                 else elem A i' j' k' c')\<rparr>)))"

text \<open>
  \<^verbatim>\<open>LineSource.update_E\<close>.  \<^verbatim>\<open>q / self.period\<close> raises \<^verbatim>\<open>ZeroDivisionError\<close> for a
  zero period.
\<close>

definition src_update_E :: "line_source \<Rightarrow> 'c grid \<Rightarrow> error + 'c grid" where
  "src_update_E s g =
     (let q = timesteps_passed g in
      if to_float (src_period s) = 0 then Inl ZeroDivisionError
      else
        let f = sin (2 * pi * of_int q / to_float (src_period s) + src_phase_shift s);
            vect = map (\<lambda>p. p * f) (src_profile s)
        in bind (for_each (iadd_item 2) (zip (src_x s) (zip (src_y s) (zip (src_z s) vect))) (E g))
             (\<lambda>e. Inr (g\<lparr>E := e\<rparr>)))"

text \<open>\<^verbatim>\<open>LineSource.update_H\<close>: \<^verbatim>\<open>pass\<close>.\<close>

definition src_update_H :: "line_source \<Rightarrow> 'c grid \<Rightarrow> error + 'c grid" where
  "src_update_H s g = Inr g"

subsection \<open>Time stepping\<close>

definition update_E :: "'c hooks \<Rightarrow> 'c grid \<Rightarrow> error + 'c grid" where
  "update_E hk g =
     bind (for_each (boundary_update_phi_E hk) (boundaries g) g) (\<lambda>g1.
       let curl = curl_H (H g1);
           g2 = g1\<lparr>E := tadd (E g1) (tmul (smul (courant_number g1) (inverse_permittivity g1)) curl)\<rparr>
       in
       bind (for_each (\<lambda>obj. object_update_E hk obj curl) (objects g2) g2) (\<lambda>g3.
       bind (for_each (boundary_update_E hk) (boundaries g3) g3) (\<lambda>g4.
       bind (for_each src_update_E (sources g4) g4) (\<lambda>g5.
       for_each (detect_E hk) (detectors g5) g5))))"

definition update_H :: "'c hooks \<Rightarrow> 'c grid \<Rightarrow> error + 'c grid" where
  "update_H hk g =
     bind (for_each (boundary_update_phi_H hk) (boundaries g) g) (\<lambda>g1.
       let curl = curl_E (E g1);
           g2 = g1\<lparr>H := tsub (H g1) (tmul (smul (courant_number g1) (inverse_permeability g1)) curl)\<rparr>
       in
       bind (for_each (\<lambda>obj. object_update_H hk obj curl) (objects g2) g2) (\<lambda>g3.
       bind (for_each (boundary_update_H hk) (boundaries g3) g3) (\<lambda>g4.
       bind (for_each src_update_H (sources g4) g4) (\<lambda>g5.
       for_each (detect_H hk) (detectors g5) g5))))"

definition step :: "'c hooks \<Rightarrow> 'c grid \<Rightarrow> error + 'c grid" where
  "step hk g =
     bind (update_E hk g) (\<lambda>g1.
     bind (update_H hk g1) (\<lambda>g2.
     Inr (g2\<lparr>timesteps_passed := timesteps_passed g2 + 1\<rparr>)))"



subsection \<open>Registration through the \<^verbatim>\<open>add_*\<close> methods\<close>

text \<open>
  \<^verbatim>\<open>xs[key] = v\<close> on a Python list: a string key raises \<^verbatim>\<open>TypeError\<close>, an integer key
  outside \<open>-len..len-1\<close> raises \<^verbatim>\<open>IndexError\<close>, an integer key inside replaces the
  element there.  The four collections of a grid are lists.
\<close>

datatype pykey = KeyStr string | KeyInt int

definition list_setitem :: "'a list \<Rightarrow> pykey \<Rightarrow> 'a \<Rightarrow> error + 'a list" where
  "list_setitem xs key v =
     (case key of
        KeyStr _ \<Rightarrow> Inl TypeError
      | KeyInt i \<Rightarrow>
          (case axis_index (length xs) i of
             Inl e \<Rightarrow> Inl e
           | Inr j \<Rightarrow> Inr (xs[j := v])))"

subsection \<open>Index keys\<close>



text \<open>\<^verbatim>\<open>ListOrSlice\<close>: an axis key after \<^verbatim>\<open>_handle_single_key\<close>.\<close>

datatype index =
    IndexList "int list"
  | IndexSlice "int option" "int option" "int option"

fun map_result :: "('a \<Rightarrow> error + 'b) \<Rightarrow> 'a list \<Rightarrow> error + 'b list" where
  "map_result f [] = Inr []"
| "map_result f (x # xs) = bind (f x) (\<lambda>y. bind (map_result f xs) (\<lambda>ys. Inr (y # ys)))"






subsection \<open>Registration of a line source\<close>

text \<open>
  \<^verbatim>\<open>hasattr(grid, name)\<close>: the attributes that \<^verbatim>\<open>Grid.__init__\<close> and the class body
  bind, those every Python object has, and those attached by earlier registrations.
\<close>

definition grid_attributes :: "string list" where
  "grid_attributes =
     [''grid_spacing'', ''Nx'', ''Ny'', ''Nz'', ''D'', ''courant_number'', ''timestep'',
      ''E'', ''H'', ''inverse_permittivity'', ''inverse_permeability'', ''timesteps_passed'',
      ''_sources'', ''_boundaries'', ''_detectors'', ''_objects'',
      ''visualize'', ''__init__'', ''_handle_distance'', ''_handle_time'', ''_handle_tuple'',
      ''_handle_slice'', ''_handle_single_key'', ''x'', ''y'', ''z'', ''shape'',
      ''time_passed'', ''run'', ''step'', ''update_E'', ''update_H'', ''reset'',
      ''add_source'', ''add_boundary'', ''add_detector'', ''add_object'',
      ''__setitem__'', ''__str__'']"

definition object_attributes :: "string list" where
  "object_attributes =
     [''__class__'', ''__delattr__'', ''__dict__'', ''__dir__'', ''__doc__'', ''__eq__'',
      ''__format__'', ''__ge__'', ''__getattribute__'', ''__gt__'', ''__hash__'',
      ''__init_subclass__'', ''__le__'', ''__lt__'', ''__module__'', ''__ne__'', ''__new__'',
      ''__reduce__'', ''__reduce_ex__'', ''__repr__'', ''__setattr__'', ''__sizeof__'',
      ''__subclasshook__'', ''__weakref__'']"

definition hasattr :: "'c grid \<Rightarrow> string \<Rightarrow> bool" where
  "hasattr g nm \<longleftrightarrow>
     nm \<in> set grid_attributes \<or> nm \<in> set object_attributes \<or> names g nm \<noteq> None"

text \<open>
  \<^verbatim>\<open>list(bd.array(bd.linspace(a, b, m, endpoint=False), bd.int))\<close>: the \<open>m\<close> points
  \<open>a + i (b - a) / m\<close>, each cast to an integer by truncation.
\<close>

definition linspace_int :: "int \<Rightarrow> int \<Rightarrow> int \<Rightarrow> int list" where
  "linspace_int a b m =
     map (\<lambda>i. py_int (of_int a + of_nat i * ((of_int b - of_int a) / of_int m))) [0..<nat m]"

text \<open>\<^verbatim>\<open>slice(x[0], x[-1], None)\<close> for a list \<open>x\<close>; a slice is left as it is.\<close>

fun list_to_slice :: "index \<Rightarrow> error + index" where
  "list_to_slice (IndexList []) = Inl IndexError"
| "list_to_slice (IndexList (v # vs)) = Inr (IndexSlice (Some v) (Some (last (v # vs))) None)"
| "list_to_slice (IndexSlice a b c) = Inr (IndexSlice a b c)"

text \<open>
  The two ends of a slice as the operands of \<^verbatim>\<open>x1 - x0\<close>: the subtraction raises
  \<^verbatim>\<open>TypeError\<close> when either is \<^verbatim>\<open>None\<close>.
\<close>

fun slice_ends :: "index \<Rightarrow> error + int \<times> int" where
  "slice_ends (IndexSlice (Some a) (Some b) c) = Inr (a, b)"
| "slice_ends _ = Inl TypeError"

text \<open>\<^verbatim>\<open>LineSource._handle_slices\<close>.\<close>

fun handle_slices :: "index \<Rightarrow> index \<Rightarrow> index \<Rightarrow> error + int list \<times> int list \<times> int list" where
  "handle_slices (IndexList xs) (IndexList ys) (IndexList zs) =
     (if length xs \<noteq> length ys \<or> length ys \<noteq> length zs \<or> length zs \<noteq> length xs
      then Inl IndexError else Inr (xs, ys, zs))"
| "handle_slices x y z =
     bind (list_to_slice x) (\<lambda>x'.
     bind (list_to_slice y) (\<lambda>y'.
     bind (list_to_slice z) (\<lambda>z'.
     bind (slice_ends x') (\<lambda>(x0, x1).
     bind (slice_ends y') (\<lambda>(y0, y1).
     bind (slice_ends z') (\<lambda>(z0, z1).
       let m = max (max \<bar>x1 - x0\<bar> \<bar>y1 - y0\<bar>) \<bar>z1 - z0\<bar>
       in Inr (linspace_int x0 x1 m, linspace_int y0 y1 m, linspace_int z0 z1 m)))))))"

text \<open>
  \<^verbatim>\<open>LineSource._register_grid\<close>, returning the source as registration leaves it and the
  grid that now holds it.  The three coordinate lists have one length on both paths of
  \<^verbatim>\<open>_handle_slices\<close>, so \<^verbatim>\<open>self.x[L // 2]\<close> raises exactly when they are empty.
\<close>

definition register_grid ::
  "line_source \<Rightarrow> 'c grid \<Rightarrow> index \<Rightarrow> index \<Rightarrow> index \<Rightarrow> error + line_source \<times> 'c grid" where
  "register_grid s g x y z =
     bind (case src_name s of
             None \<Rightarrow> Inr (names g)
           | Some nm \<Rightarrow>
               if hasattr g nm then Inl ValueError
               else Inr ((names g)(nm \<mapsto> length (sources g)))) (\<lambda>names'.
     bind (handle_slices x y z) (\<lambda>(xs, ys, zs).
     bind (handle_time (timestep g) (src_period s)) (\<lambda>p.
     bind (map_result (getitem (inverse_permittivity g) 2) (zip xs (zip ys zs))) (\<lambda>eps.
       let amplitude = map (\<lambda>e. sqrt (src_power s * e)) eps;
           L = length xs
       in
       if L = 0 then Inl IndexError
       else
         let xc = xs ! (L div 2); yc = ys ! (L div 2); zc = zs ! (L div 2);
             vect = map (\<lambda>(a, b, c). of_int ((a - xc)\<^sup>2 + (b - yc)\<^sup>2 + (c - zc)\<^sup>2))
                      (zip xs (zip ys zs));
             gauss = map (\<lambda>v. exp (- v\<^sup>2 / (2 * (1 / 2 * Max (set vect))\<^sup>2))) vect;
             normed = map (\<lambda>v. v / sum_list gauss) gauss;
             profile = map (\<lambda>(v, a). v * a) (zip normed amplitude);
             s' = s\<lparr>src_period := PyInt p, src_x := xs, src_y := ys, src_z := zs,
                    src_vect := vect, src_profile := profile\<rparr>
         in Inr (s', g\<lparr>sources := sources g @ [s'], names := names'\<rparr>)))))"

text \<open>
  A call of \<^verbatim>\<open>source._register_grid\<close> in which some of the positional arguments
  \<open>x\<close>, \<open>y\<close>, \<open>z\<close> may be missing: they have no default, so Python raises
  \<^verbatim>\<open>TypeError\<close> before the body runs.
\<close>

fun call_register_grid ::
  "line_source \<Rightarrow> 'c grid \<Rightarrow> index option \<Rightarrow> index option \<Rightarrow> index option
     \<Rightarrow> error + line_source \<times> 'c grid" where
  "call_register_grid s g (Some x) (Some y) (Some z) = register_grid s g x y z"
| "call_register_grid s g _ _ _ = Inl TypeError"

text \<open>\<^verbatim>\<open>Grid.add_source\<close>: \<^verbatim>\<open>source._register_grid(self)\<close>, then \<^verbatim>\<open>self._sources[name] = source\<close>.\<close>

definition add_source :: "pykey \<Rightarrow> line_source \<Rightarrow> 'c grid \<Rightarrow> error + 'c grid" where
  "add_source nm source g =
     bind (call_register_grid source g None None None) (\<lambda>(s', g').
     bind (list_setitem (sources g') nm s') (\<lambda>l. Inr (g'\<lparr>sources := l\<rparr>)))"

text \<open>
  \<^verbatim>\<open>add_boundary\<close>, \<^verbatim>\<open>add_detector\<close> and \<^verbatim>\<open>add_object\<close>, over the registration callback of
  the absent class.
\<close>

definition add_boundary :: "'c hooks \<Rightarrow> pykey \<Rightarrow> 'c \<Rightarrow> 'c grid \<Rightarrow> error + 'c grid" where
  "add_boundary hk nm boundary g =
     bind (boundary_register_grid hk boundary g) (\<lambda>(b', g').
     bind (list_setitem (boundaries g') nm b') (\<lambda>l. Inr (g'\<lparr>boundaries := l\<rparr>)))"

definition add_detector :: "'c hooks \<Rightarrow> pykey \<Rightarrow> 'c \<Rightarrow> 'c grid \<Rightarrow> error + 'c grid" where
  "add_detector hk nm detector g =
     bind (detector_register_grid hk detector g) (\<lambda>(d', g').
     bind (list_setitem (detectors g') nm d') (\<lambda>l. Inr (g'\<lparr>detectors := l\<rparr>)))"

definition add_object :: "'c hooks \<Rightarrow> pykey \<Rightarrow> 'c \<Rightarrow> 'c grid \<Rightarrow> error + 'c grid" where
  "add_object hk nm obj g =
     bind (object_register_grid hk obj g) (\<lambda>(o', g').
     bind (list_setitem (objects g') nm o') (\<lambda>l. Inr (g'\<lparr>objects := l\<rparr>)))"


section \<open>Concrete instances\<close>

text \<open>Collaborator classes whose methods do nothing, over the one-element type.\<close>

definition no_hooks :: "unit hooks" where
  "no_hooks =
     \<lparr>boundary_update_phi_E = (\<lambda>b g. Inr g), boundary_update_phi_H = (\<lambda>b g. Inr g),
      boundary_update_E = (\<lambda>b g. Inr g), boundary_update_H = (\<lambda>b g. Inr g),
      object_update_E = (\<lambda>b c g. Inr g), object_update_H = (\<lambda>b c g. Inr g),
      detect_E = (\<lambda>b g. Inr g), detect_H = (\<lambda>b g. Inr g),
      boundary_register_grid = (\<lambda>b g. Inr (b, g)),
      detector_register_grid = (\<lambda>b g. Inr (b, g)),
      object_register_grid = (\<lambda>b g. Inr (b, g))\<rparr>"

text \<open>A field on a \<open>2 \<times> 2 \<times> 2\<close> grid with a different value in every cell.\<close>

definition ramp :: tensor where
  "ramp = \<lparr>shape = (2, 2, 2), elem = (\<lambda>i j k c. of_nat (i + 2 * j + 3 * k * k + c * j))\<rparr>"

text \<open>
  A grid of shape \<open>(2, 2, 2)\<close> in mid-simulation, with a timestep of one second:
  \<open>E\<close> zero, \<open>H\<close> the field above, no collaborators.
\<close>

definition ramp_grid :: "unit grid" where
  "ramp_grid =
     \<lparr>grid_spacing = 299792458, Nx = 2, Ny = 2, Nz = 2, D = 3,
      courant_number = 1, timestep = 1,
      E = zeros (2, 2, 2), H = ramp,
      inverse_permittivity = ones (2, 2, 2), inverse_permeability = ones (2, 2, 2),
      timesteps_passed = 0,
      sources = [], boundaries = [], detectors = [], objects = [],
      names = Map.empty\<rparr>"

text \<open>The grid that \<^verbatim>\<open>Grid((0, 5, 5), grid_spacing=1.0)\<close> constructs.\<close>

definition flat_grid :: "unit grid" where
  "flat_grid =
     \<lparr>grid_spacing = 1, Nx = 0, Ny = 5, Nz = 5, D = 2,
      courant_number = 2 powr (- (1 / 2)) * (99 / 100),
      timestep = 2 powr (- (1 / 2)) * (99 / 100) * 1 / SPEED_LIGHT,
      E = zeros (0, 5, 5), H = zeros (0, 5, 5),
      inverse_permittivity = sdiv (ones (0, 5, 5)) 1,
      inverse_permeability = sdiv (ones (0, 5, 5)) 1,
      timesteps_passed = 0,
      sources = [], boundaries = [], detectors = [], objects = [],
      names = Map.empty\<rparr>"



section \<open>Properties of the arrays and of the curl operators\<close>

declare iadd_view.simps [simp del] isub_view.simps [simp del]

lemma bind_simps [simp]: "bind (Inr x) f = f x" "bind (Inl e) f = Inl e"
  by (simp_all add: bind_def)

lemma slice_whole [simp]: "slice_start n whole = 0" "slice_stop n whole = n"
  by (simp_all add: slice_start_def slice_stop_def whole_def)

lemma slice_but_last [simp]: "slice_start n but_last = 0" "slice_stop n but_last = n - 1"
  by (auto simp: slice_start_def slice_stop_def but_last_def clip_bound_def)

lemma slice_from_one [simp]: "slice_start n from_one = min n 1" "slice_stop n from_one = n"
  by (auto simp: slice_start_def slice_stop_def from_one_def clip_bound_def)

lemma tensor_eqI:
  "shape A = shape B \<Longrightarrow> (\<And>i j k c. elem A i j k c = elem B i j k c) \<Longrightarrow> A = (B::tensor)"
  by (cases A, cases B) (simp add: fun_eq_iff)

lemma shape_iadd_view [simp]: "shape (iadd_view A v f) = shape A"
  by (cases v) (simp add: iadd_view.simps)

lemma shape_isub_view [simp]: "shape (isub_view A v f) = shape A"
  by (cases v) (simp add: isub_view.simps)

lemma dim_iadd_view [simp]:
  "dim_x (iadd_view A v f) = dim_x A" "dim_y (iadd_view A v f) = dim_y A"
  "dim_z (iadd_view A v f) = dim_z A"
  by (simp_all add: dim_x_def dim_y_def dim_z_def)

lemma dim_isub_view [simp]:
  "dim_x (isub_view A v f) = dim_x A" "dim_y (isub_view A v f) = dim_y A"
  "dim_z (isub_view A v f) = dim_z A"
  by (simp_all add: dim_x_def dim_y_def dim_z_def)

lemma zeros_simps [simp]: "shape (zeros sh) = sh" "elem (zeros sh) i j k c = 0"
  by (simp_all add: zeros_def)

lemma dim_zeros [simp]:
  "dim_x (zeros (shape A)) = dim_x A" "dim_y (zeros (shape A)) = dim_y A"
  "dim_z (zeros (shape A)) = dim_z A"
  by (simp_all add: dim_x_def dim_y_def dim_z_def)

lemma elem_iadd_view:
  "elem (iadd_view A (sx, sy, sz, c) f) i j k c' =
     (if c' = c \<and> in_slice (dim_x A) sx i \<and> in_slice (dim_y A) sy j \<and> in_slice (dim_z A) sz k
      then elem A i j k c' + f (i - slice_start (dim_x A) sx) (j - slice_start (dim_y A) sy)
                               (k - slice_start (dim_z A) sz)
      else elem A i j k c')"
  by (simp add: iadd_view.simps)

lemma elem_isub_view:
  "elem (isub_view A (sx, sy, sz, c) f) i j k c' =
     (if c' = c \<and> in_slice (dim_x A) sx i \<and> in_slice (dim_y A) sy j \<and> in_slice (dim_z A) sz k
      then elem A i j k c' - f (i - slice_start (dim_x A) sx) (j - slice_start (dim_y A) sy)
                               (k - slice_start (dim_z A) sz)
      else elem A i j k c')"
  by (simp add: isub_view.simps)

text \<open>
  In every statement of the two operators the views subtracted from each other, and the
  view the difference is written into, have the same extent: numpy raises no broadcasting
  error.
\<close>

lemma view_extent_agree:
  "view_extent A (sx, from_one, sz, c) = view_extent A (sx, but_last, sz, c')"
  "view_extent A (sx, sy, from_one, c) = view_extent A (sx, sy, but_last, c')"
  "view_extent A (from_one, sy, sz, c) = view_extent A (but_last, sy, sz, c')"
  by simp_all

lemma shape_curl [simp]: "shape (curl_E F) = shape F" "shape (curl_H F) = shape F"
  by (simp_all add: curl_E_def curl_H_def Let_def)

text \<open>The entries of both curls at every index, inside the shape or not.\<close>

lemma curl_E_elem:
  shows "elem (curl_E F) i j k 0 =
           (if i < dim_x F \<and> j + 1 < dim_y F \<and> k < dim_z F
            then elem F i (j + 1) k 2 - elem F i j k 2 else 0)
         - (if i < dim_x F \<and> j < dim_y F \<and> k + 1 < dim_z F
            then elem F i j (k + 1) 1 - elem F i j k 1 else 0)"
    and "elem (curl_E F) i j k 1 =
           (if i < dim_x F \<and> j < dim_y F \<and> k + 1 < dim_z F
            then elem F i j (k + 1) 0 - elem F i j k 0 else 0)
         - (if i + 1 < dim_x F \<and> j < dim_y F \<and> k < dim_z F
            then elem F (i + 1) j k 2 - elem F i j k 2 else 0)"
    and "elem (curl_E F) i j k 2 =
           (if i + 1 < dim_x F \<and> j < dim_y F \<and> k < dim_z F
            then elem F (i + 1) j k 1 - elem F i j k 1 else 0)
         - (if i < dim_x F \<and> j + 1 < dim_y F \<and> k < dim_z F
            then elem F i (j + 1) k 0 - elem F i j k 0 else 0)"
  by (auto simp: curl_E_def Let_def vsub_def in_slice_def elem_iadd_view elem_isub_view)

lemma curl_H_elem:
  shows "elem (curl_H F) i j k 0 =
           (if i < dim_x F \<and> 1 \<le> j \<and> j < dim_y F \<and> k < dim_z F
            then elem F i j k 2 - elem F i (j - 1) k 2 else 0)
         - (if i < dim_x F \<and> j < dim_y F \<and> 1 \<le> k \<and> k < dim_z F
            then elem F i j k 1 - elem F i j (k - 1) 1 else 0)"
    and "elem (curl_H F) i j k 1 =
           (if i < dim_x F \<and> j < dim_y F \<and> 1 \<le> k \<and> k < dim_z F
            then elem F i j k 0 - elem F i j (k - 1) 0 else 0)
         - (if 1 \<le> i \<and> i < dim_x F \<and> j < dim_y F \<and> k < dim_z F
            then elem F i j k 2 - elem F (i - 1) j k 2 else 0)"
    and "elem (curl_H F) i j k 2 =
           (if 1 \<le> i \<and> i < dim_x F \<and> j < dim_y F \<and> k < dim_z F
            then elem F i j k 1 - elem F (i - 1) j k 1 else 0)
         - (if i < dim_x F \<and> 1 \<le> j \<and> j < dim_y F \<and> k < dim_z F
            then elem F i j k 0 - elem F i (j - 1) k 0 else 0)"
  by (auto simp: curl_H_def Let_def vsub_def in_slice_def elem_iadd_view elem_isub_view)

lemmas curl_elem_Suc0 = curl_E_elem(2) [unfolded One_nat_def] curl_H_elem(2) [unfolded One_nat_def]

lemma curl_elem_other:
  "3 \<le> c \<Longrightarrow> elem (curl_E F) i j k c = 0" "3 \<le> c \<Longrightarrow> elem (curl_H F) i j k c = 0"
  by (auto simp: curl_E_def curl_H_def Let_def vsub_def in_slice_def elem_iadd_view elem_isub_view)

lemma curl_E_zeros [simp]: "curl_E (zeros sh) = zeros sh"
proof (rule tensor_eqI)
  fix i j k c :: nat
  have "c = 0 \<or> c = 1 \<or> c = 2 \<or> 3 \<le> c" by arith
  then show "elem (curl_E (zeros sh)) i j k c = elem (zeros sh) i j k c"
    by (auto simp: curl_E_elem curl_elem_Suc0 curl_elem_other)
qed simp

lemma curl_H_zeros [simp]: "curl_H (zeros sh) = zeros sh"
proof (rule tensor_eqI)
  fix i j k c :: nat
  have "c = 0 \<or> c = 1 \<or> c = 2 \<or> 3 \<le> c" by arith
  then show "elem (curl_H (zeros sh)) i j k c = elem (zeros sh) i j k c"
    by (auto simp: curl_H_elem curl_elem_Suc0 curl_elem_other)
qed simp

lemma tadd_zeros [simp]:
  "tadd (zeros sh) (tmul A (zeros sh')) = zeros sh"
  "tsub (zeros sh) (tmul A (zeros sh')) = zeros sh"
  by (simp_all add: tadd_def tsub_def tmul_def zeros_def)

lemma update_E_no_collaborators:
  assumes "sources g = []" "boundaries g = []" "detectors g = []" "objects g = []"
  shows "update_E hk g =
           Inr (g\<lparr>E := tadd (E g)
                         (tmul (smul (courant_number g) (inverse_permittivity g)) (curl_H (H g)))\<rparr>)"
  using assms by (simp add: update_E_def Let_def)

lemma update_H_no_collaborators:
  assumes "sources g = []" "boundaries g = []" "detectors g = []" "objects g = []"
  shows "update_H hk g =
           Inr (g\<lparr>H := tsub (H g)
                         (tmul (smul (courant_number g) (inverse_permeability g)) (curl_E (E g)))\<rparr>)"
  using assms by (simp add: update_H_def Let_def)

lemma step_bare:
  assumes "sources g = []" "boundaries g = []" "detectors g = []" "objects g = []"
  shows "step hk g =
           (let E' = tadd (E g)
                       (tmul (smul (courant_number g) (inverse_permittivity g)) (curl_H (H g)));
                H' = tsub (H g)
                       (tmul (smul (courant_number g) (inverse_permeability g)) (curl_E E'))
            in Inr (g\<lparr>E := E', H := H', timesteps_passed := timesteps_passed g + 1\<rparr>))"
  using assms
  by (simp add: step_def update_E_no_collaborators update_H_no_collaborators Let_def)

lemma ramp_simps [simp]:
  "dim_x ramp = 2" "dim_y ramp = 2" "dim_z ramp = 2"
  "elem ramp i j k c = of_nat (i + 2 * j + 3 * k * k + c * j)"
  by (simp_all add: ramp_def dim_x_def dim_y_def dim_z_def)

section \<open>Properties of the grid and of the line source\<close>

text \<open>
  C1.  On a grid with no registered source, boundary, detector or object, one \<open>step\<close>
  returns the grid in which \<open>E\<close> is \<open>E + courant_number * inverse_permittivity * curl_H H\<close>
  with the \<open>H\<close> from before the step, \<open>H\<close> is
  \<open>H - courant_number * inverse_permeability * curl_E E'\<close> with \<open>E'\<close> the electric field
  just computed, and \<open>timesteps_passed\<close> is one more; nothing else changes and the step
  does not raise.
\<close>

theorem step_without_collaborators:
  assumes "sources g = []" "boundaries g = []" "detectors g = []" "objects g = []"
  shows "step hk g =
           (let E' = tadd (E g)
                       (tmul (smul (courant_number g) (inverse_permittivity g)) (curl_H (H g)));
                H' = tsub (H g)
                       (tmul (smul (courant_number g) (inverse_permeability g)) (curl_E E'))
            in Inr (g\<lparr>E := E', H := H', timesteps_passed := timesteps_passed g + 1\<rparr>))"
  using assms by (rule step_bare)

theorem step_without_collaborators_witness:
  "sources ramp_grid = [] \<and> boundaries ramp_grid = [] \<and> detectors ramp_grid = [] \<and>
   objects ramp_grid = [] \<and>
   (\<exists>g'. step no_hooks ramp_grid = Inr g' \<and> timesteps_passed g' = 1 \<and>
          elem (E g') 1 1 1 0 = 1 \<and> elem (H g') 0 0 0 2 = 5)"
proof -
  have h: "sources ramp_grid = []" "boundaries ramp_grid = []" "detectors ramp_grid = []"
    "objects ramp_grid = []"
    by (simp_all add: ramp_grid_def)
  from step_without_collaborators [OF h, of no_hooks]
  obtain g' where g': "step no_hooks ramp_grid = Inr g'"
    and t: "timesteps_passed g' = timesteps_passed ramp_grid + 1"
    and e: "E g' = tadd (E ramp_grid) (tmul (smul (courant_number ramp_grid) (inverse_permittivity ramp_grid)) (curl_H (H ramp_grid)))"
    and h': "H g' = tsub (H ramp_grid) (tmul (smul (courant_number ramp_grid) (inverse_permeability ramp_grid)) (curl_E (E g')))"
    by (simp add: Let_def)
  have "elem (E g') 1 1 1 0 = 1"
    by (simp add: e ramp_grid_def tadd_def tmul_def smul_def ones_def curl_H_elem)
  moreover have "elem (H g') 0 0 0 2 = 5"
    by (simp add: h' e ramp_grid_def tadd_def tsub_def tmul_def smul_def ones_def
          curl_H_elem curl_E_elem curl_elem_Suc0 dim_x_def dim_y_def dim_z_def ramp_def)
  moreover have "timesteps_passed g' = 1"
    by (simp add: t ramp_grid_def)
  ultimately show ?thesis
    using g' h by blast
qed

text \<open>
  C2.  At a cell \<open>(i, j, k)\<close> of a field \<open>F\<close>, the x-component of \<open>curl_E F\<close> is the
  forward difference of \<open>F\<^sub>z\<close> along y minus the forward difference of \<open>F\<^sub>y\<close> along z,
  each present only where the neighbour at \<open>+1\<close> exists; the y- and z-components are the
  cyclic analogues.  \<open>curl_H F\<close> has the backward differences in the same places, each
  present only at an index of at least one along the differenced axis.
\<close>

theorem curl_cells:
  assumes "i < dim_x F" "j < dim_y F" "k < dim_z F"
  shows "elem (curl_E F) i j k 0 =
           (if j + 1 < dim_y F then elem F i (j + 1) k 2 - elem F i j k 2 else 0)
         - (if k + 1 < dim_z F then elem F i j (k + 1) 1 - elem F i j k 1 else 0) \<and>
         elem (curl_E F) i j k 1 =
           (if k + 1 < dim_z F then elem F i j (k + 1) 0 - elem F i j k 0 else 0)
         - (if i + 1 < dim_x F then elem F (i + 1) j k 2 - elem F i j k 2 else 0) \<and>
         elem (curl_E F) i j k 2 =
           (if i + 1 < dim_x F then elem F (i + 1) j k 1 - elem F i j k 1 else 0)
         - (if j + 1 < dim_y F then elem F i (j + 1) k 0 - elem F i j k 0 else 0) \<and>
         elem (curl_H F) i j k 0 =
           (if 1 \<le> j then elem F i j k 2 - elem F i (j - 1) k 2 else 0)
         - (if 1 \<le> k then elem F i j k 1 - elem F i j (k - 1) 1 else 0) \<and>
         elem (curl_H F) i j k 1 =
           (if 1 \<le> k then elem F i j k 0 - elem F i j (k - 1) 0 else 0)
         - (if 1 \<le> i then elem F i j k 2 - elem F (i - 1) j k 2 else 0) \<and>
         elem (curl_H F) i j k 2 =
           (if 1 \<le> i then elem F i j k 1 - elem F (i - 1) j k 1 else 0)
         - (if 1 \<le> j then elem F i j k 0 - elem F i (j - 1) k 0 else 0)"
  using assms by (simp add: curl_E_elem curl_H_elem curl_elem_Suc0)

theorem curl_cells_witness:
  "0 < dim_x ramp \<and> 1 < dim_y ramp \<and> 0 < dim_z ramp \<and>
   elem (curl_E ramp) 0 1 0 0 = - 3 \<and> elem (curl_E ramp) 0 1 0 1 = 2 \<and>
   elem (curl_E ramp) 0 1 0 2 = 1 \<and>
   elem (curl_H ramp) 0 1 0 0 = 4 \<and> elem (curl_H ramp) 0 1 0 1 = 0 \<and>
   elem (curl_H ramp) 0 1 0 2 = - 2"
  using curl_cells [of 0 ramp 1 0] by simp

subsection \<open>Construction and the fresh grid\<close>

text \<open>What a successful construction returns.\<close>

lemma Grid_init_Inr:
  assumes "Grid_init shp spacing permittivity permeability cn = Inr g"
  obtains nx ny nz c where
    "handle_tuple (to_float spacing) shp = Inr (nx, ny, nz)"
    "(case cn of None \<Rightarrow> default_courant_number (int_of_bool (nx > 1) + int_of_bool (ny > 1) + int_of_bool (nz > 1))
      | Some v \<Rightarrow> Inr (to_float v)) = Inr c"
    "0 \<le> nx" "0 \<le> ny" "0 \<le> nz"
    "g = \<lparr>grid_spacing = to_float spacing, Nx = nx, Ny = ny, Nz = nz,
          D = int_of_bool (nx > 1) + int_of_bool (ny > 1) + int_of_bool (nz > 1),
          courant_number = c, timestep = c * to_float spacing / SPEED_LIGHT,
          E = zeros (nat nx, nat ny, nat nz), H = zeros (nat nx, nat ny, nat nz),
          inverse_permittivity = sdiv (ones (nat nx, nat ny, nat nz)) (to_float permittivity),
          inverse_permeability = sdiv (ones (nat nx, nat ny, nat nz)) (to_float permeability),
          timesteps_passed = 0,
          sources = [], boundaries = [], detectors = [], objects = [],
          names = Map.empty\<rparr>"
  using assms
  by (auto simp: Grid_init_def Let_def bind_def split: sum.splits prod.splits if_splits)


lemma cube_grid:
  "\<exists>g :: unit grid. Grid_init [PyInt 2, PyInt 2, PyInt 2] (PyFloat 1) (PyFloat 2) (PyInt 1) None = Inr g
     \<and> Nx g = 2 \<and> Ny g = 2 \<and> Nz g = 2 \<and> D g = 3
     \<and> courant_number g = 3 powr (- (1 / 2)) * (99 / 100)"
  by (simp add: Grid_init_def handle_tuple_def handle_distance_def int_of_bool_def
        default_courant_number_def Let_def)

lemma line_grid:
  "\<exists>g :: unit grid. Grid_init [PyInt 1, PyInt 1, PyInt 20] (PyFloat 1) (PyInt 1) (PyInt 1) None = Inr g"
  by (simp add: Grid_init_def handle_tuple_def handle_distance_def int_of_bool_def
        default_courant_number_def Let_def)



text \<open>
  C4.  A successful construction stores \<open>float(grid_spacing)\<close>, the resolved shape and the
  number \<open>D\<close> of its axes of size above one; without a given Courant number it stores
  \<open>D\<^sup>-\<^sup>0\<^sup>.\<^sup>5 * 0.99\<close>, with a given one that number; and in both cases the timestep is
  \<open>courant_number * grid_spacing / 299792458\<close>.  The instance after it constructs a \<open>2 \<times> 2 \<times> 2\<close>
  grid (three dimensions) and a \<open>1 \<times> 1 \<times> 20\<close> grid (one dimension).
\<close>

theorem Grid_init_courant_timestep:
  assumes "Grid_init shp spacing permittivity permeability cn = Inr g"
  shows "grid_spacing g = to_float spacing \<and>
         handle_tuple (grid_spacing g) shp = Inr (Nx g, Ny g, Nz g) \<and>
         D g = int_of_bool (Nx g > 1) + int_of_bool (Ny g > 1) + int_of_bool (Nz g > 1) \<and>
         (case cn of
            None \<Rightarrow> courant_number g = of_int (D g) powr (- (1 / 2)) * (99 / 100)
          | Some c \<Rightarrow> courant_number g = to_float c) \<and>
         timestep g = courant_number g * grid_spacing g / 299792458"
  using assms
  by (rule Grid_init_Inr)
     (auto simp: default_courant_number_def SPEED_LIGHT_def split: option.splits if_splits)

theorem Grid_init_courant_timestep_witness:
  "\<exists>(g :: unit grid) g' :: unit grid.
     Grid_init [PyInt 2, PyInt 2, PyInt 2] (PyFloat 1) (PyFloat 2) (PyInt 1) None = Inr g \<and>
     courant_number g = 3 powr (- (1 / 2)) * (99 / 100) \<and>
     timestep g = 3 powr (- (1 / 2)) * (99 / 100) * 1 / 299792458 \<and>
     Grid_init [PyInt 1, PyInt 1, PyInt 20] (PyFloat 1) (PyInt 1) (PyInt 1) None = Inr g' \<and>
     courant_number g' = 99 / 100 \<and> timestep g' = 99 / 100 * 1 / 299792458"
proof -
  from cube_grid obtain g :: "unit grid" where
    g: "Grid_init [PyInt 2, PyInt 2, PyInt 2] (PyFloat 1) (PyFloat 2) (PyInt 1) None = Inr g"
    by blast
  from line_grid obtain g' :: "unit grid" where
    g': "Grid_init [PyInt 1, PyInt 1, PyInt 20] (PyFloat 1) (PyInt 1) (PyInt 1) None = Inr g'"
    by blast
  from Grid_init_courant_timestep [OF g, unfolded option.case to_float.simps]
  have gs: "grid_spacing g = 1"
    and ht: "handle_tuple (grid_spacing g) [PyInt 2, PyInt 2, PyInt 2] = Inr (Nx g, Ny g, Nz g)"
    and d: "D g = int_of_bool (Nx g > 1) + int_of_bool (Ny g > 1) + int_of_bool (Nz g > 1)"
    and cn: "courant_number g = of_int (D g) powr (- (1 / 2)) * (99 / 100)"
    and ts: "timestep g = courant_number g * grid_spacing g / 299792458"
    by blast+
  from ht d have "D g = 3"
    by (simp add: handle_tuple_def handle_distance_def int_of_bool_def)
  with cn ts gs have "courant_number g = 3 powr (- (1 / 2)) * (99 / 100)"
    "timestep g = 3 powr (- (1 / 2)) * (99 / 100) * 1 / 299792458"
    by simp_all
  moreover
  from Grid_init_courant_timestep [OF g', unfolded option.case to_float.simps]
  have gs': "grid_spacing g' = 1"
    and ht': "handle_tuple (grid_spacing g') [PyInt 1, PyInt 1, PyInt 20] = Inr (Nx g', Ny g', Nz g')"
    and d': "D g' = int_of_bool (Nx g' > 1) + int_of_bool (Ny g' > 1) + int_of_bool (Nz g' > 1)"
    and cn': "courant_number g' = of_int (D g') powr (- (1 / 2)) * (99 / 100)"
    and ts': "timestep g' = courant_number g' * grid_spacing g' / 299792458"
    by blast+
  from ht' d' have "D g' = 1"
    by (simp add: handle_tuple_def handle_distance_def int_of_bool_def)
  with cn' ts' gs' have "courant_number g' = 99 / 100" "timestep g' = 99 / 100 * 1 / 299792458"
    by simp_all
  ultimately show ?thesis
    using g g' by blast
qed

subsection \<open>Distances\<close>

lemma ceiling_minus_half [simp]: "\<lceil>- (1 / 2) :: real\<rceil> = 0"
  by (simp add: ceiling_def)




subsection \<open>Validation of the shape\<close>

lemma flat_grid_constructed:
  "Grid_init [PyInt 0, PyInt 5, PyInt 5] (PyFloat 1) (PyInt 1) (PyInt 1) None = Inr flat_grid"
  by (simp add: Grid_init_def handle_tuple_def handle_distance_def int_of_bool_def Let_def
        default_courant_number_def flat_grid_def)

lemma handle_tuple_length: "length shp \<noteq> 3 \<Longrightarrow> handle_tuple spacing shp = Inl ValueError"
  by (auto simp: handle_tuple_def split: list.splits)

text \<open>
  C8, as stated, fails: the shape \<open>(0, 5, 5)\<close> contains a size that is not positive and
  the constructor returns a grid with \<open>Nx = 0\<close>.
\<close>

theorem Grid_init_accepts_zero_size:
  "Grid_init [PyInt 0, PyInt 5, PyInt 5] (PyFloat 1) (PyInt 1) (PyInt 1) None = Inr flat_grid \<and>
   Nx flat_grid = 0"
  using flat_grid_constructed by (simp add: flat_grid_def)

text \<open>
  C8, amended.  The constructor raises \<^verbatim>\<open>ValueError\<close> for every shape whose length is
  not three, and a grid it returns has the resolved shape with no negative size: a shape
  that resolves to a negative size is rejected at construction, by the allocation of the
  arrays or by an earlier error.  A size of zero is accepted.
\<close>

theorem Grid_init_shape_check:
  "(length shp \<noteq> 3 \<longrightarrow>
      Grid_init shp spacing permittivity permeability cn = (Inl ValueError :: error + 'c grid)) \<and>
   (Grid_init shp spacing permittivity permeability cn = Inr (g :: 'c grid) \<longrightarrow>
      length shp = 3 \<and> handle_tuple (to_float spacing) shp = Inr (Nx g, Ny g, Nz g) \<and>
      0 \<le> Nx g \<and> 0 \<le> Ny g \<and> 0 \<le> Nz g)"
proof (intro conjI impI)
  assume "length shp \<noteq> 3"
  then show "Grid_init shp spacing permittivity permeability cn = (Inl ValueError :: error + 'c grid)"
    by (simp add: Grid_init_def handle_tuple_length)
next
  assume g: "Grid_init shp spacing permittivity permeability cn = Inr g"
  then have t: "handle_tuple (to_float spacing) shp = Inr (Nx g, Ny g, Nz g)"
    and n: "0 \<le> Nx g" "0 \<le> Ny g" "0 \<le> Nz g"
    by (auto elim!: Grid_init_Inr)
  from t show "length shp = 3"
    using handle_tuple_length [of shp "to_float spacing"] by auto
  from t n show "handle_tuple (to_float spacing) shp = Inr (Nx g, Ny g, Nz g)" "0 \<le> Nx g"
    "0 \<le> Ny g" "0 \<le> Nz g"
    by simp_all
qed

theorem Grid_init_shape_check_witness:
  "length [PyInt 5, PyInt 5] \<noteq> 3 \<and>
   Grid_init [PyInt 5, PyInt 5] (PyFloat 1) (PyInt 1) (PyInt 1) None = (Inl ValueError :: error + unit grid) \<and>
   Grid_init [PyInt 0, PyInt 5, PyInt 5] (PyFloat 1) (PyInt 1) (PyInt 1) None = Inr flat_grid \<and>
   0 \<le> Nx flat_grid \<and> 0 \<le> Ny flat_grid \<and> 0 \<le> Nz flat_grid"
  using Grid_init_shape_check [of "[PyInt 5, PyInt 5]" "PyFloat 1" "PyInt 1" "PyInt 1" None flat_grid]
        Grid_init_shape_check [of "[PyInt 0, PyInt 5, PyInt 5]" "PyFloat 1" "PyInt 1" "PyInt 1" None flat_grid]
        flat_grid_constructed
  by simp

subsection \<open>Running\<close>



lemma for_each_src_update_H [simp]: "for_each src_update_H ss g = Inr g"
  by (induction ss) (simp_all add: src_update_H_def)









subsection \<open>The \<^verbatim>\<open>add_*\<close> methods\<close>

lemma isl_bind_Inl [simp]: "isl m \<Longrightarrow> isl (bind m f)"
  by (cases m) simp_all

lemma isl_list_setitem_str [simp]: "isl (list_setitem xs (KeyStr k) v)"
  by (simp add: list_setitem_def)

lemma isl_bind_setitem:
  "isl (bind m (\<lambda>(c, g'). bind (list_setitem (sel g') (KeyStr k) c) (upd g')))"
  by (cases m) (auto simp: list_setitem_def)

text \<open>
  C7.  \<open>add_source\<close> raises \<^verbatim>\<open>TypeError\<close> on every grid, name and line source: it calls
  the registration callback without the three coordinates the callback requires.  The
  other three methods raise for every string name, whatever the registration callback of
  the collaborator does: the collection is a list and a list is not indexed by a string.
\<close>

theorem add_source_raises:
  "add_source nm source g = Inl TypeError \<and>
   isl (add_boundary hk (KeyStr k) boundary g) \<and>
   isl (add_detector hk (KeyStr k) detector g) \<and>
   isl (add_object hk (KeyStr k) obj g)"
  by (simp add: add_source_def add_boundary_def add_detector_def add_object_def isl_bind_setitem)

subsection \<open>The line source\<close>







lemma length_linspace_int [simp]: "length (linspace_int a b m) = nat m"
  by (simp add: linspace_int_def)













lemma bind_Inr_right [simp]: "bind m Inr = m"
  by (cases m) simp_all









end
